theory Spec2Isabelle
  imports Main "HOL-Library.Sublist"
begin

section \<open>JavaScript values and the options object\<close>

text \<open>
  The client in \<^verbatim>\<open>packages/mongodb/clients/mongodb.remote.client.js\<close> receives one
  plain object \<^verbatim>\<open>options\<close> (its typedef \<^verbatim>\<open>MongoDBRemoteOptions\<close>). The property values are
  modelled as primitive JavaScript values. The object is an association list read with
  \<open>map_of\<close>; reading a key that is absent yields \<open>None\<close>, which stands for
  \<^verbatim>\<open>undefined\<close>.

  A number is one of: an integer (\<open>JNum\<close>); a finite number that is not an integer
  (\<open>JFrac\<close>), represented by the text ToString yields for it, so that 27017.5 is
  \<open>JFrac ''27017.5''\<close>; \<^verbatim>\<open>NaN\<close>; or one of the two infinities.
  \<open>NumberToString\<close> writes the decimal numeral of an integer, with a minus sign when it
  is negative. That is what ToString yields for an integer below \<open>10^21\<close> in magnitude,
  hence for every integer the validator below accepts.
\<close>

datatype jsval =
    JNull
  | JBool bool
  | JNum int
  | JFrac string
  | JNaN
  | JInfinity
  | JNegInfinity
  | JStr string

type_synonym jsprop = "jsval option"

type_synonym MongoDBRemoteOptions = "(string \<times> jsval) list"

definition field :: "MongoDBRemoteOptions \<Rightarrow> string \<Rightarrow> jsprop" where
  "field options k = map_of options k"

subsection \<open>ToString and ToBoolean, as template literals and the conditional operator apply them\<close>

definition digit :: "nat \<Rightarrow> char" where
  "digit d = ''0123456789'' ! d"

fun decimal :: "nat \<Rightarrow> string" where
  "decimal n = (if n < 10 then [digit n] else decimal (n div 10) @ [digit (n mod 10)])"

declare decimal.simps [simp del]

definition NumberToString :: "int \<Rightarrow> string" where
  "NumberToString n = (if n < 0 then CHR ''-'' # decimal (nat (- n)) else decimal (nat n))"

fun ToString :: "jsprop \<Rightarrow> string" where
  "ToString None = ''undefined''"
| "ToString (Some JNull) = ''null''"
| "ToString (Some (JBool b)) = (if b then ''true'' else ''false'')"
| "ToString (Some (JNum n)) = NumberToString n"
| "ToString (Some (JFrac s)) = s"
| "ToString (Some JNaN) = ''NaN''"
| "ToString (Some JInfinity) = ''Infinity''"
| "ToString (Some JNegInfinity) = ''-Infinity''"
| "ToString (Some (JStr s)) = s"

fun ToBoolean :: "jsprop \<Rightarrow> bool" where
  "ToBoolean None = False"
| "ToBoolean (Some JNull) = False"
| "ToBoolean (Some (JBool b)) = b"
| "ToBoolean (Some (JNum n)) = (n \<noteq> 0)"
| "ToBoolean (Some (JFrac s)) = True"
| "ToBoolean (Some JNaN) = False"
| "ToBoolean (Some JInfinity) = True"
| "ToBoolean (Some JNegInfinity) = True"
| "ToBoolean (Some (JStr s)) = (s \<noteq> [])"

section \<open>The schema validator (joi)\<close>

text \<open>
  The validator is an external library; the rules the source builds are modelled with
  the library's documented defaults. \<^verbatim>\<open>string()\<close> accepts a non-empty string and nothing
  else. \<^verbatim>\<open>number()\<close> accepts a finite number in the safe range, and a string it converts
  to one. \<^verbatim>\<open>boolean()\<close> accepts a boolean, and a string it converts to one.
  \<^verbatim>\<open>allow(v)\<close> adds \<open>v\<close> to the values accepted besides those of the type;
  \<^verbatim>\<open>required()\<close> refuses \<^verbatim>\<open>undefined\<close>; an object schema with keys refuses a key it
  does not list. Keys are checked in schema order and the first violation is the error.

  Which strings the library converts depends on the release installed (the source pins
  none), so the two sets are parameters of the model, the record \<open>joi_library\<close>, and
  every theorem below holds whatever they are. The source reads only the \<^verbatim>\<open>error\<close> of the
  validation and hands the original \<^verbatim>\<open>options\<close> on, never the converted value: a string
  that validation lets through is still a string where the paths read it.
\<close>

record joi_library =
  converts_number :: "string \<Rightarrow> bool"
  converts_boolean :: "string \<Rightarrow> bool"

datatype joi_type = JoiString | JoiNumber | JoiBoolean

record joi_schema =
  base :: joi_type
  allowed :: "jsval list"
  is_required :: bool

definition JOI_string :: joi_schema where
  "JOI_string = \<lparr>base = JoiString, allowed = [], is_required = False\<rparr>"

definition JOI_number :: joi_schema where
  "JOI_number = \<lparr>base = JoiNumber, allowed = [], is_required = False\<rparr>"

definition JOI_boolean :: joi_schema where
  "JOI_boolean = \<lparr>base = JoiBoolean, allowed = [], is_required = False\<rparr>"

definition allow :: "jsval \<Rightarrow> joi_schema \<Rightarrow> joi_schema" where
  "allow v s = s\<lparr>allowed := allowed s @ [v]\<rparr>"

definition required :: "joi_schema \<Rightarrow> joi_schema" where
  "required s = s\<lparr>is_required := True\<rparr>"

datatype joi_error =
    any_required string
  | string_base string
  | string_empty string
  | number_base string
  | number_unsafe string
  | number_infinity string
  | boolean_base string
  | object_unknown string

fun joi_base :: "joi_library \<Rightarrow> joi_type \<Rightarrow> string \<Rightarrow> jsval \<Rightarrow> joi_error option" where
  "joi_base JOI JoiString k (JStr s) = (if s = [] then Some (string_empty k) else None)"
| "joi_base JOI JoiString k _ = Some (string_base k)"
| "joi_base JOI JoiNumber k (JNum n) =
     (if - (2 ^ 53 - 1) \<le> n \<and> n \<le> 2 ^ 53 - 1 then None else Some (number_unsafe k))"
| "joi_base JOI JoiNumber k (JFrac s) = None"
| "joi_base JOI JoiNumber k JInfinity = Some (number_infinity k)"
| "joi_base JOI JoiNumber k JNegInfinity = Some (number_infinity k)"
| "joi_base JOI JoiNumber k (JStr s) =
     (if converts_number JOI s then None else Some (number_base k))"
| "joi_base JOI JoiNumber k _ = Some (number_base k)"
| "joi_base JOI JoiBoolean k (JBool b) = None"
| "joi_base JOI JoiBoolean k (JStr s) =
     (if converts_boolean JOI s then None else Some (boolean_base k))"
| "joi_base JOI JoiBoolean k _ = Some (boolean_base k)"

definition joi_value ::
  "joi_library \<Rightarrow> joi_schema \<Rightarrow> string \<Rightarrow> jsprop \<Rightarrow> joi_error option" where
  "joi_value JOI s k v =
     (case v of
        None \<Rightarrow> if is_required s then Some (any_required k) else None
      | Some x \<Rightarrow> if x \<in> set (allowed s) then None else joi_base JOI (base s) k x)"

fun joi_keys ::
  "joi_library \<Rightarrow> (string \<times> joi_schema) list \<Rightarrow> MongoDBRemoteOptions
     \<Rightarrow> joi_error option" where
  "joi_keys JOI [] options = None"
| "joi_keys JOI ((k, s) # ks) options =
     (case joi_value JOI s k (field options k) of
        Some e \<Rightarrow> Some e
      | None \<Rightarrow> joi_keys JOI ks options)"

definition joi_unknown :: "(string \<times> joi_schema) list \<Rightarrow> MongoDBRemoteOptions \<Rightarrow> joi_error option" where
  "joi_unknown schema options =
     (case filter (\<lambda>k. k \<notin> set (map fst schema)) (map fst options) of
        [] \<Rightarrow> None
      | k # _ \<Rightarrow> Some (object_unknown k))"

definition validate ::
  "joi_library \<Rightarrow> (string \<times> joi_schema) list \<Rightarrow> MongoDBRemoteOptions
     \<Rightarrow> joi_error option" where
  "validate JOI schema options =
     (case joi_keys JOI schema options of
        Some e \<Rightarrow> Some e
      | None \<Rightarrow> joi_unknown schema options)"

text \<open>The schema of \<^verbatim>\<open>connect\<close>, key by key as the source lists it.\<close>

definition optionsSchema :: "(string \<times> joi_schema) list" where
  "optionsSchema =
     [(''env'', required (allow (JStr ''remote'') JOI_string)),
      (''makeTunnel'', required JOI_boolean),
      (''sslCA'', required JOI_string),
      (''vpcTunnelEC2Username'', required JOI_string),
      (''vpcTunnelEC2Host'', required JOI_string),
      (''vpcTunnelEC2Port'', required JOI_number),
      (''vpcTunnelEC2PortLocal'', required JOI_number),
      (''vpcTunnelEC2PrivateKey'', required JOI_string),
      (''documentdbClusterEndpoint'', required JOI_string),
      (''documentdbClusterPort'', required JOI_number),
      (''documentdbClusterDbName'', required JOI_string),
      (''documentdbClusterUsername'', required JOI_string),
      (''documentdbClusterPassword'', required JOI_string),
      (''documentdbEndpoint'', required JOI_string),
      (''documentdbPort'', required JOI_number)]"

section \<open>The collaborators and the results\<close>

text \<open>
  \<^verbatim>\<open>TUNNEL\<close> (the promisified tunnel-ssh) and \<^verbatim>\<open>MONGODB.connect\<close> are external. Each is
  called at most once in a run, so its behaviour in that run is a function from the
  argument it is given to the way its promise settles: fulfilled with a value, or rejected
  with a reason. What a tunnel promise settles with, either way, is an \<^verbatim>\<open>Error\<close>
  instance or a value that is not one (the server of a tunnel that is up, or whatever else
  a rejection carries); the source tells the two apart with \<^verbatim>\<open>instanceof Error\<close>. Every
  call of a collaborator and every line sent to \<^verbatim>\<open>DEBUG\<close> is recorded, in order, in the
  list of events a run returns.
\<close>

datatype ('r, 'a) settled = Fulfilled 'a | Rejected 'r

datatype ('e, 'h) tunnel_value = ErrorInstance 'e | NotError 'h

record tunnel_config =
  username :: jsprop
  host :: jsprop
  port :: jsprop
  privateKey :: jsprop
  dstHost :: jsprop
  dstPort :: jsprop
  localPort :: jsprop

record mongo_auth =
  user :: jsprop
  password :: jsprop

record mongo_options =
  useNewUrlParser :: bool
  ssl :: bool
  sslCA :: jsprop
  auth :: mongo_auth

datatype event =
    DEBUG string
  | TUNNEL_call tunnel_config
  | MONGODB_connect string mongo_options

record 'c envelope =
  message :: string
  client :: 'c

datatype ('e, 'h) http_props =
    TunnelProps "('e, 'h) tunnel_value" MongoDBRemoteOptions
  | ConnectProps 'e string mongo_options

datatype ('e, 'h) HTTPError = HTTPError (status: int) (error_message: string) (props: "('e, 'h) http_props")

datatype ('e, 'h, 'c) outcome =
    Resolve "'c envelope"
  | RejectValidation joi_error
  | RejectHTTP "('e, 'h) HTTPError"

type_synonym ('e, 'h) tunnel_fn =
  "tunnel_config \<Rightarrow> (('e, 'h) tunnel_value, ('e, 'h) tunnel_value) settled"

type_synonym ('e, 'c) mongo_fn = "string \<Rightarrow> mongo_options \<Rightarrow> ('e, 'c) settled"

text \<open>
  \<^verbatim>\<open>await TUNNEL(...).catch(err => err)\<close>: the awaited value is the value of a fulfilled
  promise and the reason of a rejected one.
\<close>

fun catch_err :: "('a, 'a) settled \<Rightarrow> 'a" where
  "catch_err (Fulfilled v) = v"
| "catch_err (Rejected err) = err"

fun instanceof_Error :: "('e, 'h) tunnel_value \<Rightarrow> bool" where
  "instanceof_Error (ErrorInstance e) = True"
| "instanceof_Error (NotError h) = False"

section \<open>The two connection paths\<close>

definition tunnelConfigurations :: "MongoDBRemoteOptions \<Rightarrow> tunnel_config" where
  "tunnelConfigurations options =
     \<lparr>username = field options ''vpcTunnelEC2Username'',
      host = field options ''vpcTunnelEC2Host'',
      port = field options ''vpcTunnelEC2Port'',
      privateKey = field options ''vpcTunnelEC2PrivateKey'',
      dstHost = field options ''documentdbClusterEndpoint'',
      dstPort = field options ''documentdbClusterPort'',
      localPort = field options ''vpcTunnelEC2PortLocal''\<rparr>"

text \<open>The template literal \<^verbatim>\<open>mongodb://${user}:${pass}@${endpoint}:${port}\<close> of both paths.\<close>

definition uri_template :: "jsprop \<Rightarrow> jsprop \<Rightarrow> jsprop \<Rightarrow> jsprop \<Rightarrow> string" where
  "uri_template usr pass endpoint prt =
     ''mongodb://'' @ ToString usr @ '':'' @ ToString pass @ ''@'' @ ToString endpoint
       @ '':'' @ ToString prt"

definition tunnel_mongoDBOptions :: "MongoDBRemoteOptions \<Rightarrow> mongo_options" where
  "tunnel_mongoDBOptions options =
     \<lparr>useNewUrlParser = True,
      ssl = True,
      sslCA = field options ''sslCA'',
      auth = \<lparr>user = field options ''documentdbClusterUsername'',
              password = field options ''documentdbClusterPassword''\<rparr>\<rparr>"

definition tunnel_uri :: "MongoDBRemoteOptions \<Rightarrow> string" where
  "tunnel_uri options =
     uri_template (field options ''documentdbClusterUsername'')
       (field options ''documentdbClusterPassword'')
       (field options ''documentdbEndpoint'')
       (field options ''vpcTunnelEC2PortLocal'')"

definition connectThroughSSHTunnel ::
  "('e, 'h) tunnel_fn \<Rightarrow> ('e, 'c) mongo_fn \<Rightarrow> MongoDBRemoteOptions
     \<Rightarrow> ('e, 'h, 'c) outcome \<times> event list" where
  "connectThroughSSHTunnel TUNNEL MONGODB options =
     (let log1 = [DEBUG ''Client is outside VPC, connecting to cluster through SSH tunnel.'',
                  TUNNEL_call (tunnelConfigurations options)];
          tunnel = catch_err (TUNNEL (tunnelConfigurations options))
      in if instanceof_Error tunnel
         then (RejectHTTP (HTTPError 500 ''Error. Could not create SSH tunnel.''
                 (TunnelProps tunnel options)), log1)
         else
           let mongoDBOptions = tunnel_mongoDBOptions options;
               uri = tunnel_uri options;
               log2 = log1 @
                 [DEBUG (''Tunnel listening on port ''
                    @ ToString (field options ''vpcTunnelEC2PortLocal'') @ ''.''),
                  DEBUG (''Connecting to '' @ uri @ ''.''),
                  MONGODB_connect uri mongoDBOptions]
           in case MONGODB uri mongoDBOptions of
                Fulfilled c \<Rightarrow>
                  (Resolve \<lparr>message =
                     ''Connected to remote DocumentDB through our EC2 ssh tunnel with MongoDB.'',
                     client = c\<rparr>, log2)
              | Rejected error \<Rightarrow>
                  (RejectHTTP (HTTPError 500
                     ''Error. Could not connect to remote DocumentDB through our EC2 ssh tunnel with MongoDB.''
                     (ConnectProps error uri mongoDBOptions)), log2))"

text \<open>
  The source's \<^verbatim>\<open>_connect\<close>; it destructures the five properties it reads from its
  argument.
\<close>

definition direct_mongoDBOptions :: "MongoDBRemoteOptions \<Rightarrow> mongo_options" where
  "direct_mongoDBOptions options =
     \<lparr>useNewUrlParser = True,
      ssl = True,
      sslCA = field options ''sslCA'',
      auth = \<lparr>user = field options ''documentdbClusterUsername'',
              password = field options ''documentdbClusterPassword''\<rparr>\<rparr>"

definition direct_uri :: "MongoDBRemoteOptions \<Rightarrow> string" where
  "direct_uri options =
     uri_template (field options ''documentdbClusterUsername'')
       (field options ''documentdbClusterPassword'')
       (field options ''documentdbClusterEndpoint'')
       (field options ''documentdbClusterPort'')"

definition connect_direct ::
  "('e, 'c) mongo_fn \<Rightarrow> MongoDBRemoteOptions \<Rightarrow> ('e, 'h, 'c) outcome \<times> event list" where
  "connect_direct MONGODB options =
     (let mongoDBOptions = direct_mongoDBOptions options;
          uri = direct_uri options;
          log1 = [DEBUG ''Client is inside VPC, connecting directly to cluster.'',
                  MONGODB_connect uri mongoDBOptions]
      in case MONGODB uri mongoDBOptions of
           Fulfilled c \<Rightarrow>
             (Resolve \<lparr>message = ''Connected to remote DocumentDB with MongoDB.'',
                client = c\<rparr>, log1)
         | Rejected error \<Rightarrow>
             (RejectHTTP (HTTPError 500
                ''Error. Could not connect to remote DocumentDB with MongoDB.''
                (ConnectProps error uri mongoDBOptions)), log1))"

section \<open>connect\<close>

text \<open>
  The argument is an options object, as the typedef has it. \<open>JOI\<close> is the validator
  library, \<open>TUNNEL\<close> and \<open>MONGODB\<close> are the two collaborators.
\<close>

definition connect ::
  "joi_library \<Rightarrow> ('e, 'h) tunnel_fn \<Rightarrow> ('e, 'c) mongo_fn \<Rightarrow> MongoDBRemoteOptions
     \<Rightarrow> ('e, 'h, 'c) outcome \<times> event list" where
  "connect JOI TUNNEL MONGODB options =
     (let log0 = [DEBUG ''Connecting to remote MongoDB.'']
      in case validate JOI optionsSchema options of
           Some error \<Rightarrow> (RejectValidation error, log0)
         | None \<Rightarrow>
             (let (result, log1) =
                    (if ToBoolean (field options ''makeTunnel'')
                     then connectThroughSSHTunnel TUNNEL MONGODB options
                     else connect_direct MONGODB options)
              in (result, log0 @ log1)))"

section \<open>Concrete inputs and collaborators\<close>

text \<open>
  An instance of the library for the examples: it converts the plain decimal numerals of
  at most fifteen digits, and \<^verbatim>\<open>true\<close> and \<^verbatim>\<open>false\<close> in any letter case. The library
  converts more strings than these (signs, fractions, exponents, blanks).
\<close>

definition toLowerCase :: "string \<Rightarrow> string" where
  "toLowerCase s =
     map (\<lambda>c. case map_of (zip ''ABCDEFGHIJKLMNOPQRSTUVWXYZ'' ''abcdefghijklmnopqrstuvwxyz'') c of
                None \<Rightarrow> c
              | Some l \<Rightarrow> l) s"

definition joi_default :: joi_library where
  "joi_default =
     \<lparr>converts_number =
        (\<lambda>s. s \<noteq> [] \<and> length s \<le> 15 \<and> list_all (\<lambda>c. c \<in> set ''0123456789'') s),
      converts_boolean = (\<lambda>s. toLowerCase s = ''true'' \<or> toLowerCase s = ''false'')\<rparr>"

text \<open>
  A complete options object, with the fields the examples vary left as parameters, and
  collaborators that always succeed or always fail.
\<close>

definition example_options :: "string \<Rightarrow> bool \<Rightarrow> string \<Rightarrow> int \<Rightarrow> MongoDBRemoteOptions" where
  "example_options env mk db dport =
     [(''env'', JStr env),
      (''makeTunnel'', JBool mk),
      (''sslCA'', JStr ''ca''),
      (''vpcTunnelEC2Username'', JStr ''ec2-user''),
      (''vpcTunnelEC2Host'', JStr ''bastion''),
      (''vpcTunnelEC2Port'', JNum 22),
      (''vpcTunnelEC2PortLocal'', JNum 27018),
      (''vpcTunnelEC2PrivateKey'', JStr ''key''),
      (''documentdbClusterEndpoint'', JStr ''db.internal''),
      (''documentdbClusterPort'', JNum 27017),
      (''documentdbClusterDbName'', JStr db),
      (''documentdbClusterUsername'', JStr ''u''),
      (''documentdbClusterPassword'', JStr ''p''),
      (''documentdbEndpoint'', JStr ''localhost''),
      (''documentdbPort'', JNum dport)]"

definition tunnel_up :: "(string, string) tunnel_fn" where
  "tunnel_up cfg = Fulfilled (NotError ''server'')"

definition tunnel_down :: "(string, string) tunnel_fn" where
  "tunnel_down cfg = Rejected (ErrorInstance ''connect ECONNREFUSED'')"

text \<open>A tunnel whose promise rejects with a string, not with an \<^verbatim>\<open>Error\<close>.\<close>

definition tunnel_rejects_string :: "(string, string) tunnel_fn" where
  "tunnel_rejects_string cfg = Rejected (NotError ''timed out'')"

definition mongo_up :: "(string, nat) mongo_fn" where
  "mongo_up uri opts = Fulfilled 7"

definition mongo_down :: "(string, nat) mongo_fn" where
  "mongo_down uri opts = Rejected ''Authentication failed.''"

definition tunnel_up2 :: "(string, string) tunnel_fn" where
  "tunnel_up2 cfg = Fulfilled (NotError ''another server'')"

definition mongo_up2 :: "(string, nat) mongo_fn" where
  "mongo_up2 uri opts = Fulfilled 8"

text \<open>The object without one of its keys, and with one key set.\<close>


definition omit :: "string \<Rightarrow> MongoDBRemoteOptions \<Rightarrow> MongoDBRemoteOptions" where
  "omit k options = filter (\<lambda>(k', v). k' \<noteq> k) options"

definition assign :: "string \<Rightarrow> jsval \<Rightarrow> MongoDBRemoteOptions \<Rightarrow> MongoDBRemoteOptions" where
  "assign k v options = (k, v) # omit k options"

section \<open>What validation establishes\<close>

lemma joi_keys_member:
  "joi_keys JOI schema options = None \<Longrightarrow> (k, s) \<in> set schema
     \<Longrightarrow> joi_value JOI s k (field options k) = None"
  by (induction schema) (auto split: option.splits)

lemma validate_member:
  "validate JOI schema options = None \<Longrightarrow> (k, s) \<in> set schema
     \<Longrightarrow> joi_value JOI s k (field options k) = None"
  by (auto simp: validate_def joi_keys_member split: option.splits)

lemma required_string:
  "joi_value JOI (required JOI_string) k v = None \<longleftrightarrow> (\<exists>s. v = Some (JStr s) \<and> s \<noteq> [])"
proof (cases v)
  case None
  then show ?thesis by (simp add: joi_value_def required_def JOI_string_def)
next
  case (Some x)
  then show ?thesis
    by (cases x) (auto simp: joi_value_def required_def JOI_string_def)
qed

lemma required_number:
  "joi_value JOI (required JOI_number) k v = None \<longleftrightarrow>
     (\<exists>x. v = Some x \<and> joi_base JOI JoiNumber k x = None)"
  by (cases v) (simp_all add: joi_value_def required_def JOI_number_def)

lemma required_boolean:
  "joi_value JOI (required JOI_boolean) k v = None \<longleftrightarrow>
     (\<exists>x. v = Some x \<and> joi_base JOI JoiBoolean k x = None)"
  by (cases v) (simp_all add: joi_value_def required_def JOI_boolean_def)

lemma valid_string:
  "validate JOI optionsSchema options = None \<Longrightarrow> (k, required JOI_string) \<in> set optionsSchema
     \<Longrightarrow> \<exists>s. field options k = Some (JStr s) \<and> s \<noteq> []"
  using validate_member required_string by blast

lemma valid_number:
  "validate JOI optionsSchema options = None \<Longrightarrow> (k, required JOI_number) \<in> set optionsSchema
     \<Longrightarrow> \<exists>x. field options k = Some x \<and> joi_base JOI JoiNumber k x = None"
  using validate_member required_number by blast

lemma valid_makeTunnel:
  "validate JOI optionsSchema options = None
     \<Longrightarrow> \<exists>x. field options ''makeTunnel'' = Some x
           \<and> joi_base JOI JoiBoolean ''makeTunnel'' x = None"
  using validate_member [of JOI optionsSchema options "''makeTunnel''" "required JOI_boolean"]
    required_boolean
  by (simp add: optionsSchema_def)

lemma missing_required:
  "(k, s) \<in> set schema \<Longrightarrow> is_required s \<Longrightarrow> field options k = None
     \<Longrightarrow> \<exists>e. validate JOI schema options = Some e"
  using validate_member [of JOI schema options k s]
  by (cases "validate JOI schema options") (auto simp: joi_value_def)

lemma all_required: "(k, s) \<in> set optionsSchema \<Longrightarrow> is_required s"
  by (auto simp: optionsSchema_def required_def)

lemma example_valid:
  "env \<noteq> [] \<Longrightarrow> db \<noteq> [] \<Longrightarrow> - (2 ^ 53 - 1) \<le> dport \<Longrightarrow> dport \<le> 2 ^ 53 - 1
     \<Longrightarrow> validate JOI optionsSchema (example_options env mk db dport) = None"
  by (simp add: validate_def optionsSchema_def example_options_def field_def joi_value_def
      joi_unknown_def required_def allow_def JOI_string_def JOI_number_def JOI_boolean_def)

lemma example_fields:
  "field (example_options env mk db dport) ''makeTunnel'' = Some (JBool mk)"
  "field (example_options env mk db dport) ''documentdbClusterUsername'' = Some (JStr ''u'')"
  "field (example_options env mk db dport) ''documentdbClusterPassword'' = Some (JStr ''p'')"
  "field (example_options env mk db dport) ''documentdbEndpoint'' = Some (JStr ''localhost'')"
  "field (example_options env mk db dport) ''vpcTunnelEC2PortLocal'' = Some (JNum 27018)"
  "field (example_options env mk db dport) ''documentdbClusterEndpoint'' = Some (JStr ''db.internal'')"
  "field (example_options env mk db dport) ''documentdbClusterPort'' = Some (JNum 27017)"
  by (simp_all add: field_def example_options_def)

section \<open>Strings and fractions that validation lets through\<close>

text \<open>
  The paths read the options as they were given. A \<^verbatim>\<open>makeTunnel\<close> given as the string
  \<^verbatim>\<open>false\<close> passes validation and, being a non-empty string, selects the tunneled path;
  a port given as a string or as a fraction passes validation and is written into the URI
  as it is.
\<close>

lemma joi_default_converts:
  "converts_boolean joi_default ''false''"
  "converts_boolean joi_default ''TRUE''"
  "converts_number joi_default ''27017''"
  "\<not> converts_number joi_default ''db.internal''"
  by (simp_all add: joi_default_def toLowerCase_def)

lemma string_flag_takes_tunnel:
  "validate joi_default optionsSchema
      (assign ''makeTunnel'' (JStr ''false'') (example_options ''remote'' False ''app'' 27017))
     = None
   \<and> fst (connect joi_default tunnel_up mongo_up
      (assign ''makeTunnel'' (JStr ''false'') (example_options ''remote'' False ''app'' 27017)))
     = Resolve \<lparr>message =
         ''Connected to remote DocumentDB through our EC2 ssh tunnel with MongoDB.'',
         client = 7\<rparr>"
proof -
  let ?ex = "assign ''makeTunnel'' (JStr ''false'') (example_options ''remote'' False ''app'' 27017)"
  have v: "validate joi_default optionsSchema ?ex = None"
    by (simp add: validate_def optionsSchema_def example_options_def assign_def omit_def
        field_def joi_value_def joi_unknown_def required_def allow_def JOI_string_def
        JOI_number_def JOI_boolean_def joi_default_converts)
  have mk: "field ?ex ''makeTunnel'' = Some (JStr ''false'')"
    by (simp add: field_def assign_def)
  show ?thesis
    by (simp add: v mk connect_def connectThroughSSHTunnel_def Let_def tunnel_up_def
        mongo_up_def)
qed

lemma string_port_in_uri:
  "validate joi_default optionsSchema
      (assign ''documentdbClusterPort'' (JStr ''27017'')
         (example_options ''remote'' False ''app'' 27017))
     = None
   \<and> direct_uri
      (assign ''documentdbClusterPort'' (JStr ''27017'')
         (example_options ''remote'' False ''app'' 27017))
     = ''mongodb://u:p@db.internal:27017''"
  by (simp add: validate_def optionsSchema_def example_options_def assign_def omit_def
      field_def joi_value_def joi_unknown_def required_def allow_def JOI_string_def
      JOI_number_def JOI_boolean_def joi_default_converts direct_uri_def uri_template_def)

lemma fraction_port_in_uri:
  "validate joi_default optionsSchema
      (assign ''documentdbClusterPort'' (JFrac ''27017.5'')
         (example_options ''remote'' False ''app'' 27017))
     = None
   \<and> direct_uri
      (assign ''documentdbClusterPort'' (JFrac ''27017.5'')
         (example_options ''remote'' False ''app'' 27017))
     = ''mongodb://u:p@db.internal:27017.5''"
  by (simp add: validate_def optionsSchema_def example_options_def assign_def omit_def
      field_def joi_value_def joi_unknown_def required_def allow_def JOI_string_def
      JOI_number_def JOI_boolean_def direct_uri_def uri_template_def)

section \<open>The connection URI of each path\<close>

text \<open>
  C1. For every options object that passes validation and has \<^verbatim>\<open>makeTunnel\<close> true (or any
  other value the conditional operator takes for true), the URI of the tunneled path is
  \<^verbatim>\<open>mongodb://\<close>, the cluster username, a colon, the cluster password, an at sign,
  \<^verbatim>\<open>documentdbEndpoint\<close>, a colon and \<^verbatim>\<open>vpcTunnelEC2PortLocal\<close> as the template literal
  writes it: the decimal numeral when it is an integer, the string itself when it is a
  string the validator converts. Every URI the run hands to the database connector is
  this one, it is handed over whenever the awaited tunnel value is not an \<^verbatim>\<open>Error\<close>, and
  it stays the same when \<^verbatim>\<open>documentdbClusterEndpoint\<close> and \<^verbatim>\<open>documentdbClusterPort\<close> are
  changed.
\<close>

theorem tunneled_uri:
  assumes valid: "validate JOI optionsSchema options = None"
    and mk: "ToBoolean (field options ''makeTunnel'')"
  shows "\<exists>u p e v.
      field options ''documentdbClusterUsername'' = Some (JStr u)
    \<and> field options ''documentdbClusterPassword'' = Some (JStr p)
    \<and> field options ''documentdbEndpoint'' = Some (JStr e)
    \<and> field options ''vpcTunnelEC2PortLocal'' = Some v
    \<and> joi_base JOI JoiNumber ''vpcTunnelEC2PortLocal'' v = None
    \<and> tunnel_uri options
        = ''mongodb://'' @ u @ '':'' @ p @ ''@'' @ e @ '':'' @ ToString (Some v)
    \<and> (\<forall>n. v = JNum n \<longrightarrow> tunnel_uri options
          = ''mongodb://'' @ u @ '':'' @ p @ ''@'' @ e @ '':'' @ NumberToString n)
    \<and> (\<forall>(TUNNEL :: ('e, 'h) tunnel_fn) (MONGODB :: ('e, 'c) mongo_fn) uri mo.
          MONGODB_connect uri mo \<in> set (snd (connect JOI TUNNEL MONGODB options))
          \<longrightarrow> uri = tunnel_uri options)
    \<and> (\<forall>(TUNNEL :: ('e, 'h) tunnel_fn) (MONGODB :: ('e, 'c) mongo_fn).
          \<not> instanceof_Error (catch_err (TUNNEL (tunnelConfigurations options)))
          \<longrightarrow> (\<exists>mo. MONGODB_connect (tunnel_uri options) mo
                  \<in> set (snd (connect JOI TUNNEL MONGODB options))))
    \<and> (\<forall>options'.
          (\<forall>k. k \<noteq> ''documentdbClusterEndpoint'' \<and> k \<noteq> ''documentdbClusterPort''
             \<longrightarrow> field options' k = field options k)
          \<longrightarrow> tunnel_uri options' = tunnel_uri options)"
proof -
  obtain u where u: "field options ''documentdbClusterUsername'' = Some (JStr u)"
    using valid_string [OF valid, of "''documentdbClusterUsername''"]
    by (auto simp: optionsSchema_def)
  obtain p where p: "field options ''documentdbClusterPassword'' = Some (JStr p)"
    using valid_string [OF valid, of "''documentdbClusterPassword''"]
    by (auto simp: optionsSchema_def)
  obtain e where e: "field options ''documentdbEndpoint'' = Some (JStr e)"
    using valid_string [OF valid, of "''documentdbEndpoint''"]
    by (auto simp: optionsSchema_def)
  obtain v where v: "field options ''vpcTunnelEC2PortLocal'' = Some v"
    and ok: "joi_base JOI JoiNumber ''vpcTunnelEC2PortLocal'' v = None"
    using valid_number [OF valid, of "''vpcTunnelEC2PortLocal''"]
    by (auto simp: optionsSchema_def)
  have shape: "tunnel_uri options
      = ''mongodb://'' @ u @ '':'' @ p @ ''@'' @ e @ '':'' @ ToString (Some v)"
    by (simp add: tunnel_uri_def uri_template_def u p e v)
  have int: "\<forall>n. v = JNum n \<longrightarrow> tunnel_uri options
          = ''mongodb://'' @ u @ '':'' @ p @ ''@'' @ e @ '':'' @ NumberToString n"
    using shape by simp
  have only: "\<forall>(TUNNEL :: ('e, 'h) tunnel_fn) (MONGODB :: ('e, 'c) mongo_fn) uri mo.
          MONGODB_connect uri mo \<in> set (snd (connect JOI TUNNEL MONGODB options))
          \<longrightarrow> uri = tunnel_uri options"
    using valid mk
    by (auto simp: connect_def connectThroughSSHTunnel_def Let_def
        split: settled.splits if_splits)
  have reached: "\<forall>(TUNNEL :: ('e, 'h) tunnel_fn) (MONGODB :: ('e, 'c) mongo_fn).
          \<not> instanceof_Error (catch_err (TUNNEL (tunnelConfigurations options)))
          \<longrightarrow> (\<exists>mo. MONGODB_connect (tunnel_uri options) mo
                  \<in> set (snd (connect JOI TUNNEL MONGODB options)))"
    using valid mk
    by (auto simp: connect_def connectThroughSSHTunnel_def Let_def
        split: settled.splits)
  have indep: "\<forall>options'.
          (\<forall>k. k \<noteq> ''documentdbClusterEndpoint'' \<and> k \<noteq> ''documentdbClusterPort''
             \<longrightarrow> field options' k = field options k)
          \<longrightarrow> tunnel_uri options' = tunnel_uri options"
    by (simp add: tunnel_uri_def)
  show ?thesis
    using u p e v ok shape int only reached indep by blast
qed

theorem tunneled_uri_witness:
  "validate joi_default optionsSchema (example_options ''remote'' True ''app'' 27017) = None
   \<and> ToBoolean (field (example_options ''remote'' True ''app'' 27017) ''makeTunnel'')
   \<and> tunnel_uri (example_options ''remote'' True ''app'' 27017) = ''mongodb://u:p@localhost:27018''"
proof -
  let ?ex = "example_options ''remote'' True ''app'' 27017"
  have h1: "validate joi_default optionsSchema ?ex = None" by (simp add: example_valid)
  have h2: "ToBoolean (field ?ex ''makeTunnel'')" by (simp add: example_fields)
  obtain u p e v where f:
    "field ?ex ''documentdbClusterUsername'' = Some (JStr u)"
    "field ?ex ''documentdbClusterPassword'' = Some (JStr p)"
    "field ?ex ''documentdbEndpoint'' = Some (JStr e)"
    "field ?ex ''vpcTunnelEC2PortLocal'' = Some v"
    and uri:
    "tunnel_uri ?ex = ''mongodb://'' @ u @ '':'' @ p @ ''@'' @ e @ '':'' @ ToString (Some v)"
    using tunneled_uri [OF h1 h2] by blast
  from f have "u = ''u''" "p = ''p''" "e = ''localhost''" "v = JNum 27018"
    by (simp_all add: example_fields)
  with uri have "tunnel_uri ?ex = ''mongodb://u:p@localhost:27018''"
    by (simp add: NumberToString_def decimal.simps digit_def)
  with h1 h2 show ?thesis by simp
qed

text \<open>
  C2. For every options object that passes validation and has \<^verbatim>\<open>makeTunnel\<close> false (or
  any other value the conditional operator takes for false), the URI of the direct path is \<^verbatim>\<open>mongodb://\<close>, the cluster username, a colon, the cluster
  password, an at sign, \<^verbatim>\<open>documentdbClusterEndpoint\<close>, a colon and
  \<^verbatim>\<open>documentdbClusterPort\<close> as the template literal writes it; it is the URI handed to the
  database connector. With username \<^verbatim>\<open>u\<close>, password \<^verbatim>\<open>p\<close>, cluster endpoint
  \<^verbatim>\<open>db.internal\<close> and cluster port 27017 it is exactly
  \<^verbatim>\<open>mongodb://u:p@db.internal:27017\<close>.
\<close>

theorem direct_path_uri:
  assumes valid: "validate JOI optionsSchema options = None"
    and mk: "\<not> ToBoolean (field options ''makeTunnel'')"
  shows "\<exists>u p e v.
      field options ''documentdbClusterUsername'' = Some (JStr u)
    \<and> field options ''documentdbClusterPassword'' = Some (JStr p)
    \<and> field options ''documentdbClusterEndpoint'' = Some (JStr e)
    \<and> field options ''documentdbClusterPort'' = Some v
    \<and> joi_base JOI JoiNumber ''documentdbClusterPort'' v = None
    \<and> direct_uri options
        = ''mongodb://'' @ u @ '':'' @ p @ ''@'' @ e @ '':'' @ ToString (Some v)
    \<and> (\<forall>n. v = JNum n \<longrightarrow> direct_uri options
          = ''mongodb://'' @ u @ '':'' @ p @ ''@'' @ e @ '':'' @ NumberToString n)
    \<and> (\<forall>(TUNNEL :: ('e, 'h) tunnel_fn) (MONGODB :: ('e, 'c) mongo_fn) uri mo.
          MONGODB_connect uri mo \<in> set (snd (connect JOI TUNNEL MONGODB options))
          \<longrightarrow> uri = direct_uri options)
    \<and> (\<forall>(TUNNEL :: ('e, 'h) tunnel_fn) (MONGODB :: ('e, 'c) mongo_fn).
          \<exists>mo. MONGODB_connect (direct_uri options) mo
                  \<in> set (snd (connect JOI TUNNEL MONGODB options)))
    \<and> (u = ''u'' \<and> p = ''p'' \<and> e = ''db.internal'' \<and> v = JNum 27017
          \<longrightarrow> direct_uri options = ''mongodb://u:p@db.internal:27017'')"
proof -
  obtain u where u: "field options ''documentdbClusterUsername'' = Some (JStr u)"
    using valid_string [OF valid, of "''documentdbClusterUsername''"]
    by (auto simp: optionsSchema_def)
  obtain p where p: "field options ''documentdbClusterPassword'' = Some (JStr p)"
    using valid_string [OF valid, of "''documentdbClusterPassword''"]
    by (auto simp: optionsSchema_def)
  obtain e where e: "field options ''documentdbClusterEndpoint'' = Some (JStr e)"
    using valid_string [OF valid, of "''documentdbClusterEndpoint''"]
    by (auto simp: optionsSchema_def)
  obtain v where v: "field options ''documentdbClusterPort'' = Some v"
    and ok: "joi_base JOI JoiNumber ''documentdbClusterPort'' v = None"
    using valid_number [OF valid, of "''documentdbClusterPort''"]
    by (auto simp: optionsSchema_def)
  have shape: "direct_uri options
      = ''mongodb://'' @ u @ '':'' @ p @ ''@'' @ e @ '':'' @ ToString (Some v)"
    by (simp add: direct_uri_def uri_template_def u p e v)
  have int: "\<forall>n. v = JNum n \<longrightarrow> direct_uri options
          = ''mongodb://'' @ u @ '':'' @ p @ ''@'' @ e @ '':'' @ NumberToString n"
    using shape by simp
  have only: "\<forall>(TUNNEL :: ('e, 'h) tunnel_fn) (MONGODB :: ('e, 'c) mongo_fn) uri mo.
          MONGODB_connect uri mo \<in> set (snd (connect JOI TUNNEL MONGODB options))
          \<longrightarrow> uri = direct_uri options"
    using valid mk
    by (auto simp: connect_def connect_direct_def Let_def split: settled.splits)
  have reached: "\<forall>(TUNNEL :: ('e, 'h) tunnel_fn) (MONGODB :: ('e, 'c) mongo_fn).
          \<exists>mo. MONGODB_connect (direct_uri options) mo
                  \<in> set (snd (connect JOI TUNNEL MONGODB options))"
    using valid mk
    by (auto simp: connect_def connect_direct_def Let_def split: settled.splits)
  have example: "u = ''u'' \<and> p = ''p'' \<and> e = ''db.internal'' \<and> v = JNum 27017
          \<longrightarrow> direct_uri options = ''mongodb://u:p@db.internal:27017''"
    using shape by (simp add: NumberToString_def decimal.simps digit_def)
  show ?thesis
    using u p e v ok shape int only reached example by blast
qed

theorem direct_path_uri_witness:
  "validate joi_default optionsSchema (example_options ''remote'' False ''app'' 27017) = None
   \<and> \<not> ToBoolean (field (example_options ''remote'' False ''app'' 27017) ''makeTunnel'')
   \<and> direct_uri (example_options ''remote'' False ''app'' 27017)
       = ''mongodb://u:p@db.internal:27017''"
proof -
  let ?ex = "example_options ''remote'' False ''app'' 27017"
  have h1: "validate joi_default optionsSchema ?ex = None" by (simp add: example_valid)
  have h2: "\<not> ToBoolean (field ?ex ''makeTunnel'')" by (simp add: example_fields)
  obtain u p e v where f:
    "field ?ex ''documentdbClusterUsername'' = Some (JStr u)"
    "field ?ex ''documentdbClusterPassword'' = Some (JStr p)"
    "field ?ex ''documentdbClusterEndpoint'' = Some (JStr e)"
    "field ?ex ''documentdbClusterPort'' = Some v"
    and ex:
    "u = ''u'' \<and> p = ''p'' \<and> e = ''db.internal'' \<and> v = JNum 27017
       \<longrightarrow> direct_uri ?ex = ''mongodb://u:p@db.internal:27017''"
    using direct_path_uri [OF h1 h2] by blast
  from f have "u = ''u''" "p = ''p''" "e = ''db.internal''" "v = JNum 27017"
    by (simp_all add: example_fields)
  with ex have "direct_uri ?ex = ''mongodb://u:p@db.internal:27017''"
    by blast
  with h1 h2 show ?thesis by simp
qed

section \<open>Rejections\<close>

text \<open>
  C4. When a key of the schema (all are required) is missing from the options object,
  \<^verbatim>\<open>connect\<close> rejects with the validator's own error, not with an \<^verbatim>\<open>HTTPError\<close>. The only
  event of the run is the first debug line: the tunnel establisher and the database
  connector are not called.
\<close>

theorem missing_field_rejected:
  assumes key: "k \<in> fst ` set optionsSchema"
    and missing: "field options k = None"
  shows "\<exists>e. validate JOI optionsSchema options = Some e
    \<and> connect JOI TUNNEL MONGODB options
        = (RejectValidation e, [DEBUG ''Connecting to remote MongoDB.''])
    \<and> (\<forall>cfg. TUNNEL_call cfg \<notin> set (snd (connect JOI TUNNEL MONGODB options)))
    \<and> (\<forall>uri mo. MONGODB_connect uri mo \<notin> set (snd (connect JOI TUNNEL MONGODB options)))
    \<and> (\<forall>err. fst (connect JOI TUNNEL MONGODB options) \<noteq> RejectHTTP err)"
proof -
  from key obtain s where "(k, s) \<in> set optionsSchema" by auto
  then obtain e where "validate JOI optionsSchema options = Some e"
    using missing_required all_required missing by blast
  then show ?thesis by (simp add: connect_def)
qed

theorem missing_field_rejected_witness:
  "''sslCA'' \<in> fst ` set optionsSchema
   \<and> field (omit ''sslCA'' (example_options ''remote'' True ''app'' 27017)) ''sslCA'' = None
   \<and> connect joi_default tunnel_up mongo_up
        (omit ''sslCA'' (example_options ''remote'' True ''app'' 27017))
       = (RejectValidation (any_required ''sslCA''), [DEBUG ''Connecting to remote MongoDB.''])"
proof -
  let ?ex = "omit ''sslCA'' (example_options ''remote'' True ''app'' 27017)"
  have h1: "''sslCA'' \<in> fst ` set optionsSchema" by (simp add: optionsSchema_def)
  have h2: "field ?ex ''sslCA'' = None" by (simp add: field_def omit_def example_options_def)
  have v: "validate joi_default optionsSchema ?ex = Some (any_required ''sslCA'')"
    by (simp add: validate_def optionsSchema_def example_options_def omit_def field_def
        joi_value_def required_def allow_def JOI_string_def JOI_number_def JOI_boolean_def)
  obtain e where "validate joi_default optionsSchema ?ex = Some e"
    "connect joi_default tunnel_up mongo_up ?ex
       = (RejectValidation e, [DEBUG ''Connecting to remote MongoDB.''])"
    using missing_field_rejected [OF h1 h2, of joi_default tunnel_up mongo_up] by blast
  with v h1 h2 show ?thesis by simp
qed

text \<open>
  C5, as claimed: whenever tunnel establishment fails, \<^verbatim>\<open>connect\<close> rejects with status 500.
  The source takes the awaited tunnel value for a failure only when it is an \<^verbatim>\<open>Error\<close>
  instance. A tunnel promise that rejects with a string is not one: the run goes on to
  the database connector and, when that succeeds, resolves.
\<close>

theorem tunnel_rejection_without_error_resolves:
  "validate joi_default optionsSchema (example_options ''remote'' True ''app'' 27017) = None
   \<and> field (example_options ''remote'' True ''app'' 27017) ''makeTunnel'' = Some (JBool True)
   \<and> tunnel_rejects_string (tunnelConfigurations (example_options ''remote'' True ''app'' 27017))
       = Rejected (NotError ''timed out'')
   \<and> fst (connect joi_default tunnel_rejects_string mongo_up
        (example_options ''remote'' True ''app'' 27017))
       = Resolve \<lparr>message =
           ''Connected to remote DocumentDB through our EC2 ssh tunnel with MongoDB.'',
           client = 7\<rparr>"
  by (simp add: example_valid example_fields connect_def connectThroughSSHTunnel_def Let_def
      tunnel_rejects_string_def mongo_up_def)

text \<open>
  C5, amended. For a validated options object with \<^verbatim>\<open>makeTunnel\<close> true, when the tunnel
  promise rejects with an \<^verbatim>\<open>Error\<close> instance, \<^verbatim>\<open>connect\<close> rejects with an \<^verbatim>\<open>HTTPError\<close> of
  status 500 whose properties hold that \<^verbatim>\<open>Error\<close> and the options object the run was
  given. Each of the seven values handed to the tunnel establisher (ssh user, host, port,
  local port, private key, destination host, destination port) is a property of that
  object.
\<close>

theorem tunnel_failure_status_500:
  assumes valid: "validate JOI optionsSchema options = None"
    and mk: "ToBoolean (field options ''makeTunnel'')"
    and fails: "TUNNEL (tunnelConfigurations options) = Rejected (ErrorInstance cause)"
  shows "\<exists>err ctx cfg.
      connect JOI TUNNEL MONGODB options
        = (RejectHTTP err,
           [DEBUG ''Connecting to remote MongoDB.'',
            DEBUG ''Client is outside VPC, connecting to cluster through SSH tunnel.'',
            TUNNEL_call cfg])
    \<and> status err = 500
    \<and> error_message err = ''Error. Could not create SSH tunnel.''
    \<and> props err = TunnelProps (ErrorInstance cause) ctx
    \<and> ctx = options
    \<and> TUNNEL cfg = Rejected (ErrorInstance cause)
    \<and> username cfg = field ctx ''vpcTunnelEC2Username''
    \<and> host cfg = field ctx ''vpcTunnelEC2Host''
    \<and> port cfg = field ctx ''vpcTunnelEC2Port''
    \<and> localPort cfg = field ctx ''vpcTunnelEC2PortLocal''
    \<and> privateKey cfg = field ctx ''vpcTunnelEC2PrivateKey''
    \<and> dstHost cfg = field ctx ''documentdbClusterEndpoint''
    \<and> dstPort cfg = field ctx ''documentdbClusterPort''"
  using valid mk fails
  by (simp add: connect_def connectThroughSSHTunnel_def Let_def tunnelConfigurations_def)

theorem tunnel_failure_status_500_witness:
  "validate joi_default optionsSchema (example_options ''remote'' True ''app'' 27017) = None
   \<and> ToBoolean (field (example_options ''remote'' True ''app'' 27017) ''makeTunnel'')
   \<and> tunnel_down (tunnelConfigurations (example_options ''remote'' True ''app'' 27017))
       = Rejected (ErrorInstance ''connect ECONNREFUSED'')
   \<and> fst (connect joi_default tunnel_down mongo_up (example_options ''remote'' True ''app'' 27017))
       = RejectHTTP (HTTPError 500 ''Error. Could not create SSH tunnel.''
           (TunnelProps (ErrorInstance ''connect ECONNREFUSED'')
              (example_options ''remote'' True ''app'' 27017)))"
proof -
  let ?ex = "example_options ''remote'' True ''app'' 27017"
  have h1: "validate joi_default optionsSchema ?ex = None" by (simp add: example_valid)
  have h2: "ToBoolean (field ?ex ''makeTunnel'')" by (simp add: example_fields)
  have h3: "tunnel_down (tunnelConfigurations ?ex)
      = Rejected (ErrorInstance ''connect ECONNREFUSED'')"
    by (simp add: tunnel_down_def)
  obtain err ctx cfg where r: "connect joi_default tunnel_down mongo_up ?ex
        = (RejectHTTP err,
           [DEBUG ''Connecting to remote MongoDB.'',
            DEBUG ''Client is outside VPC, connecting to cluster through SSH tunnel.'',
            TUNNEL_call cfg])"
    "status err = 500" "error_message err = ''Error. Could not create SSH tunnel.''"
    "props err = TunnelProps (ErrorInstance ''connect ECONNREFUSED'') ctx" "ctx = ?ex"
    using tunnel_failure_status_500 [where TUNNEL = tunnel_down and MONGODB = mongo_up
        and JOI = joi_default, OF h1 h2 h3]
    by blast
  then have "fst (connect joi_default tunnel_down mongo_up ?ex)
       = RejectHTTP (HTTPError 500 ''Error. Could not create SSH tunnel.''
           (TunnelProps (ErrorInstance ''connect ECONNREFUSED'') ?ex))"
    by (cases err) simp
  with h1 h2 h3 show ?thesis by simp
qed

text \<open>
  C6, as claimed: every failure after validation is surfaced and none is recovered inside.
  A tunnel promise that rejects with a value that is not an \<^verbatim>\<open>Error\<close> instance is a
  failure the run does not surface: it logs that the tunnel is listening, calls the
  database connector and resolves.
\<close>

theorem tunnel_rejection_swallowed:
  "validate joi_default optionsSchema (example_options ''remote'' True ''other'' 27017) = None
   \<and> tunnel_rejects_string
        (tunnelConfigurations (example_options ''remote'' True ''other'' 27017))
       = Rejected (NotError ''timed out'')
   \<and> connect joi_default tunnel_rejects_string mongo_up2
        (example_options ''remote'' True ''other'' 27017)
       = (Resolve \<lparr>message =
            ''Connected to remote DocumentDB through our EC2 ssh tunnel with MongoDB.'',
            client = 8\<rparr>,
          [DEBUG ''Connecting to remote MongoDB.'',
           DEBUG ''Client is outside VPC, connecting to cluster through SSH tunnel.'',
           TUNNEL_call (tunnelConfigurations (example_options ''remote'' True ''other'' 27017)),
           DEBUG ''Tunnel listening on port 27018.'',
           DEBUG ''Connecting to mongodb://u:p@localhost:27018.'',
           MONGODB_connect ''mongodb://u:p@localhost:27018''
             (tunnel_mongoDBOptions (example_options ''remote'' True ''other'' 27017))])"
proof -
  let ?ex = "example_options ''remote'' True ''other'' 27017"
  have num: "NumberToString 27018 = ''27018''"
    by (simp add: NumberToString_def decimal.simps digit_def)
  have uri: "tunnel_uri ?ex = ''mongodb://u:p@localhost:27018''"
    by (simp add: tunnel_uri_def uri_template_def example_fields num)
  show ?thesis
    by (simp add: example_valid example_fields connect_def connectThroughSSHTunnel_def Let_def
        tunnel_rejects_string_def mongo_up2_def uri num)
qed

text \<open>
  C6, amended. After validation every failure the run detects (an awaited tunnel value
  that is an \<^verbatim>\<open>Error\<close> instance, a rejected database connection) is a rejection with an
  \<^verbatim>\<open>HTTPError\<close> of status 500, a message of its own for each failure site, the cause, and
  a context: the options object when the tunnel fails, the attempted URI and the
  connection options when the connection fails. Each collaborator is called at most once,
  so nothing is retried; the run resolves only when no such failure occurred, with the
  client the connector returned; and no validation error appears once validation has
  passed.
\<close>

theorem failures_surface_as_500:
  assumes valid: "validate JOI optionsSchema options = None"
  shows
   "(ToBoolean (field options ''makeTunnel'')
       \<and> instanceof_Error (catch_err (TUNNEL (tunnelConfigurations options)))
     \<longrightarrow> connect JOI TUNNEL MONGODB options
         = (RejectHTTP (HTTPError 500 ''Error. Could not create SSH tunnel.''
              (TunnelProps (catch_err (TUNNEL (tunnelConfigurations options))) options)),
            [DEBUG ''Connecting to remote MongoDB.'',
             DEBUG ''Client is outside VPC, connecting to cluster through SSH tunnel.'',
             TUNNEL_call (tunnelConfigurations options)]))
  \<and> (ToBoolean (field options ''makeTunnel'')
       \<and> \<not> instanceof_Error (catch_err (TUNNEL (tunnelConfigurations options)))
       \<and> MONGODB (tunnel_uri options) (tunnel_mongoDBOptions options) = Rejected cause
     \<longrightarrow> connect JOI TUNNEL MONGODB options
         = (RejectHTTP (HTTPError 500
              ''Error. Could not connect to remote DocumentDB through our EC2 ssh tunnel with MongoDB.''
              (ConnectProps cause (tunnel_uri options) (tunnel_mongoDBOptions options))),
            [DEBUG ''Connecting to remote MongoDB.'',
             DEBUG ''Client is outside VPC, connecting to cluster through SSH tunnel.'',
             TUNNEL_call (tunnelConfigurations options),
             DEBUG (''Tunnel listening on port ''
               @ ToString (field options ''vpcTunnelEC2PortLocal'') @ ''.''),
             DEBUG (''Connecting to '' @ tunnel_uri options @ ''.''),
             MONGODB_connect (tunnel_uri options) (tunnel_mongoDBOptions options)]))
  \<and> (\<not> ToBoolean (field options ''makeTunnel'')
       \<and> MONGODB (direct_uri options) (direct_mongoDBOptions options) = Rejected cause
     \<longrightarrow> connect JOI TUNNEL MONGODB options
         = (RejectHTTP (HTTPError 500
              ''Error. Could not connect to remote DocumentDB with MongoDB.''
              (ConnectProps cause (direct_uri options) (direct_mongoDBOptions options))),
            [DEBUG ''Connecting to remote MongoDB.'',
             DEBUG ''Client is inside VPC, connecting directly to cluster.'',
             MONGODB_connect (direct_uri options) (direct_mongoDBOptions options)]))
  \<and> (\<forall>env. fst (connect JOI TUNNEL MONGODB options) = Resolve env
       \<longrightarrow> (ToBoolean (field options ''makeTunnel'')
              \<longrightarrow> \<not> instanceof_Error (catch_err (TUNNEL (tunnelConfigurations options))))
         \<and> (\<exists>uri mo. MONGODB_connect uri mo \<in> set (snd (connect JOI TUNNEL MONGODB options))
              \<and> MONGODB uri mo = Fulfilled (client env)))
  \<and> (\<forall>e. fst (connect JOI TUNNEL MONGODB options) \<noteq> RejectValidation e)"
proof (cases "ToBoolean (field options ''makeTunnel'')")
  case True
  show ?thesis
  proof (cases "instanceof_Error (catch_err (TUNNEL (tunnelConfigurations options)))")
    case down: True
    with valid True show ?thesis
      by (simp add: connect_def connectThroughSSHTunnel_def Let_def)
  next
    case up: False
    with valid True show ?thesis
      by (cases "MONGODB (tunnel_uri options) (tunnel_mongoDBOptions options)")
        (simp_all add: connect_def connectThroughSSHTunnel_def Let_def)
  qed
next
  case False
  with valid show ?thesis
    by (cases "MONGODB (direct_uri options) (direct_mongoDBOptions options)")
      (simp_all add: connect_def connect_direct_def Let_def)
qed

theorem failures_surface_as_500_witness:
  "validate joi_default optionsSchema (example_options ''remote'' False ''app'' 27017) = None
   \<and> \<not> ToBoolean (field (example_options ''remote'' False ''app'' 27017) ''makeTunnel'')
   \<and> mongo_down (direct_uri (example_options ''remote'' False ''app'' 27017))
        (direct_mongoDBOptions (example_options ''remote'' False ''app'' 27017))
       = Rejected ''Authentication failed.''
   \<and> fst (connect joi_default tunnel_up mongo_down
        (example_options ''remote'' False ''app'' 27017))
       = RejectHTTP (HTTPError 500
           ''Error. Could not connect to remote DocumentDB with MongoDB.''
           (ConnectProps ''Authentication failed.''
              (direct_uri (example_options ''remote'' False ''app'' 27017))
              (direct_mongoDBOptions (example_options ''remote'' False ''app'' 27017))))"
proof -
  let ?ex = "example_options ''remote'' False ''app'' 27017"
  have h1: "validate joi_default optionsSchema ?ex = None" by (simp add: example_valid)
  have h2: "\<not> ToBoolean (field ?ex ''makeTunnel'')" by (simp add: example_fields)
  have h3: "mongo_down (direct_uri ?ex) (direct_mongoDBOptions ?ex)
      = Rejected ''Authentication failed.''"
    by (simp add: mongo_down_def)
  have "connect joi_default tunnel_up mongo_down ?ex
         = (RejectHTTP (HTTPError 500
              ''Error. Could not connect to remote DocumentDB with MongoDB.''
              (ConnectProps ''Authentication failed.'' (direct_uri ?ex) (direct_mongoDBOptions ?ex))),
            [DEBUG ''Connecting to remote MongoDB.'',
             DEBUG ''Client is inside VPC, connecting directly to cluster.'',
             MONGODB_connect (direct_uri ?ex) (direct_mongoDBOptions ?ex)])"
    using failures_surface_as_500 [where TUNNEL = tunnel_up and MONGODB = mongo_down
        and JOI = joi_default and cause = "''Authentication failed.''", OF h1] h2 h3
    by blast
  then have "fst (connect joi_default tunnel_up mongo_down ?ex)
       = RejectHTTP (HTTPError 500
           ''Error. Could not connect to remote DocumentDB with MongoDB.''
           (ConnectProps ''Authentication failed.'' (direct_uri ?ex) (direct_mongoDBOptions ?ex)))"
    by simp
  with h1 h2 h3 show ?thesis by blast
qed

section \<open>Successful runs\<close>

text \<open>
  C7. The path is chosen by the conditional operator on \<^verbatim>\<open>makeTunnel\<close>. For a validated
  options object, a run that resolves carries the tunneled path's message when that path
  was taken and the direct path's message when the direct path was taken; each path
  resolves with its message when its collaborators succeed; and the two messages are
  different strings.
\<close>

theorem success_message_by_path:
  assumes valid: "validate JOI optionsSchema options = None"
  shows
   "(\<forall>env. fst (connect JOI TUNNEL MONGODB options) = Resolve env
       \<longrightarrow> (ToBoolean (field options ''makeTunnel'')
              \<and> message env
                  = ''Connected to remote DocumentDB through our EC2 ssh tunnel with MongoDB.'')
           \<or> (\<not> ToBoolean (field options ''makeTunnel'')
              \<and> message env = ''Connected to remote DocumentDB with MongoDB.''))
  \<and> (ToBoolean (field options ''makeTunnel'')
       \<and> \<not> instanceof_Error (catch_err (TUNNEL (tunnelConfigurations options)))
       \<and> MONGODB (tunnel_uri options) (tunnel_mongoDBOptions options) = Fulfilled c
     \<longrightarrow> fst (connect JOI TUNNEL MONGODB options)
         = Resolve \<lparr>message =
             ''Connected to remote DocumentDB through our EC2 ssh tunnel with MongoDB.'',
             client = c\<rparr>)
  \<and> (\<not> ToBoolean (field options ''makeTunnel'')
       \<and> MONGODB (direct_uri options) (direct_mongoDBOptions options) = Fulfilled c
     \<longrightarrow> fst (connect JOI TUNNEL MONGODB options)
         = Resolve \<lparr>message = ''Connected to remote DocumentDB with MongoDB.'', client = c\<rparr>)
  \<and> ''Connected to remote DocumentDB through our EC2 ssh tunnel with MongoDB.''
       \<noteq> ''Connected to remote DocumentDB with MongoDB.''"
proof (cases "ToBoolean (field options ''makeTunnel'')")
  case True
  show ?thesis
  proof (cases "instanceof_Error (catch_err (TUNNEL (tunnelConfigurations options)))")
    case down: True
    with valid True show ?thesis
      by (simp add: connect_def connectThroughSSHTunnel_def Let_def)
  next
    case up: False
    with valid True show ?thesis
      by (cases "MONGODB (tunnel_uri options) (tunnel_mongoDBOptions options)")
        (auto simp add: connect_def connectThroughSSHTunnel_def Let_def)
  qed
next
  case False
  with valid show ?thesis
    by (cases "MONGODB (direct_uri options) (direct_mongoDBOptions options)")
      (auto simp add: connect_def connect_direct_def Let_def)
qed

theorem success_message_by_path_witness:
  "validate joi_default optionsSchema (example_options ''remote'' True ''app'' 27017) = None
   \<and> validate joi_default optionsSchema (example_options ''remote'' False ''app'' 27017) = None
   \<and> fst (connect joi_default tunnel_up mongo_up (example_options ''remote'' True ''app'' 27017))
       = Resolve \<lparr>message =
           ''Connected to remote DocumentDB through our EC2 ssh tunnel with MongoDB.'',
           client = 7\<rparr>
   \<and> fst (connect joi_default tunnel_up mongo_up (example_options ''remote'' False ''app'' 27017))
       = Resolve \<lparr>message = ''Connected to remote DocumentDB with MongoDB.'', client = 7\<rparr>"
proof -
  let ?t = "example_options ''remote'' True ''app'' 27017"
  let ?d = "example_options ''remote'' False ''app'' 27017"
  have vt: "validate joi_default optionsSchema ?t = None"
    and vd: "validate joi_default optionsSchema ?d = None"
    by (simp_all add: example_valid)
  have t: "ToBoolean (field ?t ''makeTunnel'')
       \<and> \<not> instanceof_Error (catch_err (tunnel_up (tunnelConfigurations ?t)))
       \<and> mongo_up (tunnel_uri ?t) (tunnel_mongoDBOptions ?t) = Fulfilled 7"
    by (simp add: example_fields tunnel_up_def mongo_up_def)
  have d: "\<not> ToBoolean (field ?d ''makeTunnel'')
       \<and> mongo_up (direct_uri ?d) (direct_mongoDBOptions ?d) = Fulfilled 7"
    by (simp add: example_fields mongo_up_def)
  have "fst (connect joi_default tunnel_up mongo_up ?t)
       = Resolve \<lparr>message =
           ''Connected to remote DocumentDB through our EC2 ssh tunnel with MongoDB.'',
           client = 7\<rparr>"
    using success_message_by_path [where TUNNEL = tunnel_up and MONGODB = mongo_up
        and JOI = joi_default and c = 7, OF vt] t
    by blast
  moreover have "fst (connect joi_default tunnel_up mongo_up ?d)
       = Resolve \<lparr>message = ''Connected to remote DocumentDB with MongoDB.'', client = 7\<rparr>"
    using success_message_by_path [where TUNNEL = tunnel_up and MONGODB = mongo_up
        and JOI = joi_default and c = 7, OF vd] d
    by blast
  ultimately show ?thesis using vt vd by blast
qed

text \<open>
  C9. Two runs on the same validated options object, each with collaborators that always
  succeed (the two runs may be handed different tunnel and client handles), both resolve,
  with the same message and the same sequence of events; only the client handle may
  differ. With the same collaborators the two results are equal.
\<close>

theorem repeated_run_same_envelope:
  assumes valid: "validate JOI optionsSchema options = None"
    and tunnel1: "\<forall>cfg. \<exists>h. TUNNEL1 cfg = Fulfilled (NotError h)"
    and tunnel2: "\<forall>cfg. \<exists>h. TUNNEL2 cfg = Fulfilled (NotError h)"
    and mongo1: "\<forall>uri mo. \<exists>c. MONGODB1 uri mo = Fulfilled c"
    and mongo2: "\<forall>uri mo. \<exists>c. MONGODB2 uri mo = Fulfilled c"
  shows "\<exists>msg c1 c2.
      fst (connect JOI TUNNEL1 MONGODB1 options) = Resolve \<lparr>message = msg, client = c1\<rparr>
    \<and> fst (connect JOI TUNNEL2 MONGODB2 options) = Resolve \<lparr>message = msg, client = c2\<rparr>
    \<and> snd (connect JOI TUNNEL1 MONGODB1 options) = snd (connect JOI TUNNEL2 MONGODB2 options)
    \<and> (TUNNEL1 = TUNNEL2 \<and> MONGODB1 = MONGODB2
         \<longrightarrow> connect JOI TUNNEL1 MONGODB1 options = connect JOI TUNNEL2 MONGODB2 options)"
proof (cases "ToBoolean (field options ''makeTunnel'')")
  case True
  obtain h1 h2 where h: "TUNNEL1 (tunnelConfigurations options) = Fulfilled (NotError h1)"
    "TUNNEL2 (tunnelConfigurations options) = Fulfilled (NotError h2)"
    using tunnel1 tunnel2 by blast
  obtain c1 c2 where c:
    "MONGODB1 (tunnel_uri options) (tunnel_mongoDBOptions options) = Fulfilled c1"
    "MONGODB2 (tunnel_uri options) (tunnel_mongoDBOptions options) = Fulfilled c2"
    using mongo1 mongo2 by blast
  show ?thesis
    using valid True h c
    by (auto simp add: connect_def connectThroughSSHTunnel_def Let_def)
next
  case False
  obtain c1 c2 where c:
    "MONGODB1 (direct_uri options) (direct_mongoDBOptions options) = Fulfilled c1"
    "MONGODB2 (direct_uri options) (direct_mongoDBOptions options) = Fulfilled c2"
    using mongo1 mongo2 by blast
  show ?thesis
    using valid False c
    by (auto simp add: connect_def connect_direct_def Let_def)
qed

theorem repeated_run_same_envelope_witness:
  "validate joi_default optionsSchema (example_options ''remote'' True ''app'' 27017) = None
   \<and> (\<exists>msg c1 c2.
        fst (connect joi_default tunnel_up mongo_up
              (example_options ''remote'' True ''app'' 27017))
          = Resolve \<lparr>message = msg, client = c1\<rparr>
      \<and> fst (connect joi_default tunnel_up2 mongo_up2
              (example_options ''remote'' True ''app'' 27017))
          = Resolve \<lparr>message = msg, client = c2\<rparr>
      \<and> snd (connect joi_default tunnel_up mongo_up
              (example_options ''remote'' True ''app'' 27017))
          = snd (connect joi_default tunnel_up2 mongo_up2
              (example_options ''remote'' True ''app'' 27017)))"
proof -
  let ?ex = "example_options ''remote'' True ''app'' 27017"
  have h1: "validate joi_default optionsSchema ?ex = None" by (simp add: example_valid)
  have t1: "\<forall>cfg. \<exists>h. tunnel_up cfg = Fulfilled (NotError h)" by (simp add: tunnel_up_def)
  have t2: "\<forall>cfg. \<exists>h. tunnel_up2 cfg = Fulfilled (NotError h)" by (simp add: tunnel_up2_def)
  have m1: "\<forall>uri mo. \<exists>c. mongo_up uri mo = Fulfilled c" by (simp add: mongo_up_def)
  have m2: "\<forall>uri mo. \<exists>c. mongo_up2 uri mo = Fulfilled c" by (simp add: mongo_up2_def)
  show ?thesis
    using repeated_run_same_envelope [OF h1 t1 t2 m1 m2] h1 by blast
qed

section \<open>The env key\<close>

text \<open>
  C3. The claim is that an \<^verbatim>\<open>env\<close> other than \<^verbatim>\<open>remote\<close> is refused. The schema's rule for
  \<^verbatim>\<open>env\<close> is \<^verbatim>\<open>string().allow('remote')\<close>, which accepts every non-empty string: with
  \<^verbatim>\<open>env\<close> set to \<^verbatim>\<open>local\<close> and every other key well-typed, validation passes and the
  run goes on to connect.
\<close>

theorem env_other_than_remote_accepted:
  "validate joi_default optionsSchema (example_options ''local'' False ''app'' 27017) = None
   \<and> fst (connect joi_default tunnel_up mongo_up (example_options ''local'' False ''app'' 27017))
       = Resolve \<lparr>message = ''Connected to remote DocumentDB with MongoDB.'', client = 7\<rparr>"
  by (simp add: example_valid connect_def connect_direct_def example_fields mongo_up_def)

section \<open>The URI template\<close>

text \<open>
  C8. The URI is a function of four values: on a username \<open>u\<close>, a password \<open>p\<close>, a host
  \<open>h\<close> and a port \<open>n\<close> it is \<^verbatim>\<open>mongodb://\<close>, \<open>u\<close>, a colon, \<open>p\<close>, an at sign, \<open>h\<close>, a colon
  and the decimal numeral of \<open>n\<close>. The characters of \<open>u\<close> and of \<open>p\<close> stand in it as they
  are, whatever they are: nothing is escaped. Both paths build their URI with it from
  four properties of the options object, and hand that URI to the connector.
\<close>

theorem uri_no_escaping:
  "uri_template (Some (JStr u)) (Some (JStr p)) (Some (JStr h)) (Some (JNum n))
     = ''mongodb://'' @ u @ '':'' @ p @ ''@'' @ h @ '':'' @ NumberToString n
   \<and> sublist u (uri_template (Some (JStr u)) (Some (JStr p)) endpoint prt)
   \<and> sublist p (uri_template (Some (JStr u)) (Some (JStr p)) endpoint prt)
   \<and> direct_uri options
       = uri_template (field options ''documentdbClusterUsername'')
           (field options ''documentdbClusterPassword'')
           (field options ''documentdbClusterEndpoint'')
           (field options ''documentdbClusterPort'')
   \<and> tunnel_uri options
       = uri_template (field options ''documentdbClusterUsername'')
           (field options ''documentdbClusterPassword'')
           (field options ''documentdbEndpoint'')
           (field options ''vpcTunnelEC2PortLocal'')
   \<and> (\<forall>uri mo. MONGODB_connect uri mo \<in> set (snd (connect_direct MONGODB options))
         \<longleftrightarrow> uri = direct_uri options \<and> mo = direct_mongoDBOptions options)
   \<and> (\<forall>uri mo. MONGODB_connect uri mo
           \<in> set (snd (connectThroughSSHTunnel TUNNEL MONGODB options))
         \<longrightarrow> uri = tunnel_uri options)
   \<and> uri_template (Some (JStr ''a@b'')) (Some (JStr ''p:/?#'')) (Some (JStr ''h''))
       (Some (JNum 1)) = ''mongodb://a@b:p:/?#@h:1''"
proof -
  have shape: "uri_template (Some (JStr u)) (Some (JStr p)) (Some (JStr h)) (Some (JNum n))
     = ''mongodb://'' @ u @ '':'' @ p @ ''@'' @ h @ '':'' @ NumberToString n"
    by (simp add: uri_template_def)
  have "uri_template (Some (JStr u)) (Some (JStr p)) endpoint prt
      = ''mongodb://'' @ u @ ('':'' @ p @ ''@'' @ ToString endpoint @ '':'' @ ToString prt)"
    by (simp add: uri_template_def)
  then have user: "sublist u (uri_template (Some (JStr u)) (Some (JStr p)) endpoint prt)"
    unfolding sublist_def by blast
  have "uri_template (Some (JStr u)) (Some (JStr p)) endpoint prt
      = (''mongodb://'' @ u @ '':'') @ p @ (''@'' @ ToString endpoint @ '':'' @ ToString prt)"
    by (simp add: uri_template_def)
  then have pass: "sublist p (uri_template (Some (JStr u)) (Some (JStr p)) endpoint prt)"
    unfolding sublist_def by blast
  have direct: "\<forall>uri mo. MONGODB_connect uri mo \<in> set (snd (connect_direct MONGODB options))
         \<longleftrightarrow> uri = direct_uri options \<and> mo = direct_mongoDBOptions options"
    by (auto simp: connect_direct_def Let_def split: settled.splits)
  have tunneled: "\<forall>uri mo. MONGODB_connect uri mo
           \<in> set (snd (connectThroughSSHTunnel TUNNEL MONGODB options))
         \<longrightarrow> uri = tunnel_uri options"
    by (auto simp: connectThroughSSHTunnel_def Let_def split: settled.splits if_splits)
  have special: "uri_template (Some (JStr ''a@b'')) (Some (JStr ''p:/?#'')) (Some (JStr ''h''))
       (Some (JNum 1)) = ''mongodb://a@b:p:/?#@h:1''"
    by (simp add: uri_template_def NumberToString_def decimal.simps digit_def)
  show ?thesis
    using shape user pass direct tunneled special
    by (simp add: direct_uri_def tunnel_uri_def)
qed

theorem uri_no_escaping_witness:
  "snd (connect_direct mongo_up
      (assign ''documentdbClusterPassword'' (JStr ''p@ss:w/rd'')
         (example_options ''remote'' False ''app'' 27017)))
     = [DEBUG ''Client is inside VPC, connecting directly to cluster.'',
        MONGODB_connect ''mongodb://u:p@ss:w/rd@db.internal:27017''
          (direct_mongoDBOptions
             (assign ''documentdbClusterPassword'' (JStr ''p@ss:w/rd'')
                (example_options ''remote'' False ''app'' 27017)))]
   \<and> direct_uri (assign ''documentdbClusterPassword'' (JStr ''p@ss:w/rd'')
         (example_options ''remote'' False ''app'' 27017))
     = ''mongodb://u:p@ss:w/rd@db.internal:27017''"
proof -
  let ?ex = "assign ''documentdbClusterPassword'' (JStr ''p@ss:w/rd'')
         (example_options ''remote'' False ''app'' 27017)"
  have f: "field ?ex ''documentdbClusterUsername'' = Some (JStr ''u'')"
    "field ?ex ''documentdbClusterPassword'' = Some (JStr ''p@ss:w/rd'')"
    "field ?ex ''documentdbClusterEndpoint'' = Some (JStr ''db.internal'')"
    "field ?ex ''documentdbClusterPort'' = Some (JNum 27017)"
    by (simp_all add: field_def assign_def omit_def example_options_def)
  have "direct_uri ?ex
      = uri_template (field ?ex ''documentdbClusterUsername'')
           (field ?ex ''documentdbClusterPassword'')
           (field ?ex ''documentdbClusterEndpoint'')
           (field ?ex ''documentdbClusterPort'')"
    by (rule uri_no_escaping [THEN conjunct2, THEN conjunct2, THEN conjunct2, THEN conjunct1])
  also have "\<dots> = uri_template (Some (JStr ''u'')) (Some (JStr ''p@ss:w/rd''))
      (Some (JStr ''db.internal'')) (Some (JNum 27017))"
    by (simp only: f)
  also have "\<dots> = ''mongodb://'' @ ''u'' @ '':'' @ ''p@ss:w/rd'' @ ''@'' @ ''db.internal''
      @ '':'' @ NumberToString 27017"
    by (rule uri_no_escaping [THEN conjunct1])
  finally have uri: "direct_uri ?ex = ''mongodb://u:p@ss:w/rd@db.internal:27017''"
    by (simp add: NumberToString_def decimal.simps digit_def)
  then show ?thesis
    by (simp add: connect_direct_def Let_def mongo_up_def)
qed

section \<open>The two keys that are validated and not read\<close>

lemma agree_uris:
  assumes "\<forall>k. k \<noteq> ''documentdbClusterDbName'' \<and> k \<noteq> ''documentdbPort''
             \<longrightarrow> field options' k = field options k"
  shows "tunnel_uri options' = tunnel_uri options"
    and "direct_uri options' = direct_uri options"
    and "tunnel_mongoDBOptions options' = tunnel_mongoDBOptions options"
    and "direct_mongoDBOptions options' = direct_mongoDBOptions options"
    and "tunnelConfigurations options' = tunnelConfigurations options"
    and "field options' ''makeTunnel'' = field options ''makeTunnel''"
    and "field options' ''vpcTunnelEC2PortLocal'' = field options ''vpcTunnelEC2PortLocal''"
  using assms
  by (simp_all add: tunnel_uri_def direct_uri_def tunnel_mongoDBOptions_def
      direct_mongoDBOptions_def tunnelConfigurations_def)

text \<open>
  C10, as claimed: the result of either path does not depend on
  \<^verbatim>\<open>documentdbClusterDbName\<close> and \<^verbatim>\<open>documentdbPort\<close>. Two validated options objects that
  differ in the database name only, run with a tunnel that fails, are rejected with
  different errors: the error of a failed tunnel carries the whole options object.
\<close>

theorem unused_fields_reach_tunnel_error:
  "validate joi_default optionsSchema (example_options ''remote'' True ''app'' 27017) = None
   \<and> validate joi_default optionsSchema (example_options ''remote'' True ''other'' 27017) = None
   \<and> fst (connect joi_default tunnel_down mongo_up (example_options ''remote'' True ''app'' 27017))
       \<noteq> fst (connect joi_default tunnel_down mongo_up (example_options ''remote'' True ''other'' 27017))"
proof -
  have r: "fst (connect joi_default tunnel_down mongo_up (example_options ''remote'' True db 27017))
      = RejectHTTP (HTTPError 500 ''Error. Could not create SSH tunnel.''
          (TunnelProps (ErrorInstance ''connect ECONNREFUSED'')
             (example_options ''remote'' True db 27017)))" if "db \<noteq> []" for db
    using that
    by (simp add: example_valid connect_def connectThroughSSHTunnel_def Let_def example_fields
        tunnel_down_def)
  have "example_options ''remote'' True ''app'' 27017
      \<noteq> example_options ''remote'' True ''other'' 27017"
    by (simp add: example_options_def)
  then show ?thesis
    by (simp add: r example_valid)
qed

text \<open>
  C10, amended. \<^verbatim>\<open>documentdbClusterDbName\<close> and \<^verbatim>\<open>documentdbPort\<close> are required: when
  either is absent \<^verbatim>\<open>connect\<close> rejects with a validation error. For two validated options
  objects that agree on every other key, both URIs (so the database name is no part of
  either), both connection options, the tunnel specification and the events of a run are
  the same, and so is the result of the run unless the awaited tunnel value is an
  \<^verbatim>\<open>Error\<close>; then the two errors are the same but for the options object each carries.
\<close>

theorem unused_fields:
  assumes valid: "validate JOI optionsSchema options = None"
    and valid': "validate JOI optionsSchema options' = None"
    and agree: "\<forall>k. k \<noteq> ''documentdbClusterDbName'' \<and> k \<noteq> ''documentdbPort''
             \<longrightarrow> field options' k = field options k"
  shows
   "(\<forall>other. field other ''documentdbClusterDbName'' = None
         \<or> field other ''documentdbPort'' = None
       \<longrightarrow> (\<exists>e. connect JOI TUNNEL MONGODB other
                 = (RejectValidation e, [DEBUG ''Connecting to remote MongoDB.''])))
  \<and> tunnel_uri options' = tunnel_uri options
  \<and> direct_uri options' = direct_uri options
  \<and> tunnel_mongoDBOptions options' = tunnel_mongoDBOptions options
  \<and> direct_mongoDBOptions options' = direct_mongoDBOptions options
  \<and> tunnelConfigurations options' = tunnelConfigurations options
  \<and> snd (connect JOI TUNNEL MONGODB options') = snd (connect JOI TUNNEL MONGODB options)
  \<and> (\<not> (ToBoolean (field options ''makeTunnel'')
          \<and> instanceof_Error (catch_err (TUNNEL (tunnelConfigurations options))))
     \<longrightarrow> fst (connect JOI TUNNEL MONGODB options') = fst (connect JOI TUNNEL MONGODB options))
  \<and> (ToBoolean (field options ''makeTunnel'')
       \<and> instanceof_Error (catch_err (TUNNEL (tunnelConfigurations options)))
     \<longrightarrow> fst (connect JOI TUNNEL MONGODB options)
           = RejectHTTP (HTTPError 500 ''Error. Could not create SSH tunnel.''
               (TunnelProps (catch_err (TUNNEL (tunnelConfigurations options))) options))
       \<and> fst (connect JOI TUNNEL MONGODB options')
           = RejectHTTP (HTTPError 500 ''Error. Could not create SSH tunnel.''
               (TunnelProps (catch_err (TUNNEL (tunnelConfigurations options))) options')))"
proof -
  note same = agree_uris [OF agree]
  have absent: "\<exists>e. connect JOI TUNNEL MONGODB other
                 = (RejectValidation e, [DEBUG ''Connecting to remote MongoDB.''])"
    if "field other ''documentdbClusterDbName'' = None \<or> field other ''documentdbPort'' = None"
    for other
  proof -
    have db: "(''documentdbClusterDbName'', required JOI_string) \<in> set optionsSchema"
      and dp: "(''documentdbPort'', required JOI_number) \<in> set optionsSchema"
      by (simp_all add: optionsSchema_def)
    from that have "\<exists>e. validate JOI optionsSchema other = Some e"
    proof
      assume "field other ''documentdbClusterDbName'' = None"
      then show ?thesis by (rule missing_required [OF db all_required [OF db]])
    next
      assume "field other ''documentdbPort'' = None"
      then show ?thesis by (rule missing_required [OF dp all_required [OF dp]])
    qed
    then show ?thesis by (auto simp add: connect_def)
  qed
  have rest: "snd (connect JOI TUNNEL MONGODB options') = snd (connect JOI TUNNEL MONGODB options)
  \<and> (\<not> (ToBoolean (field options ''makeTunnel'')
          \<and> instanceof_Error (catch_err (TUNNEL (tunnelConfigurations options))))
     \<longrightarrow> fst (connect JOI TUNNEL MONGODB options') = fst (connect JOI TUNNEL MONGODB options))
  \<and> (ToBoolean (field options ''makeTunnel'')
       \<and> instanceof_Error (catch_err (TUNNEL (tunnelConfigurations options)))
     \<longrightarrow> fst (connect JOI TUNNEL MONGODB options)
           = RejectHTTP (HTTPError 500 ''Error. Could not create SSH tunnel.''
               (TunnelProps (catch_err (TUNNEL (tunnelConfigurations options))) options))
       \<and> fst (connect JOI TUNNEL MONGODB options')
           = RejectHTTP (HTTPError 500 ''Error. Could not create SSH tunnel.''
               (TunnelProps (catch_err (TUNNEL (tunnelConfigurations options))) options')))"
  proof (cases "ToBoolean (field options ''makeTunnel'')")
    case True
    show ?thesis
    proof (cases "instanceof_Error (catch_err (TUNNEL (tunnelConfigurations options)))")
      case down: True
      with valid valid' True same show ?thesis
        by (simp add: connect_def connectThroughSSHTunnel_def Let_def)
    next
      case up: False
      with valid valid' True same show ?thesis
        by (cases "MONGODB (tunnel_uri options) (tunnel_mongoDBOptions options)")
          (simp_all add: connect_def connectThroughSSHTunnel_def Let_def)
    qed
  next
    case False
    with valid valid' same show ?thesis
      by (cases "MONGODB (direct_uri options) (direct_mongoDBOptions options)")
        (simp_all add: connect_def connect_direct_def Let_def)
  qed
  have abs_all: "\<forall>other. field other ''documentdbClusterDbName'' = None
         \<or> field other ''documentdbPort'' = None
       \<longrightarrow> (\<exists>e. connect JOI TUNNEL MONGODB other
                 = (RejectValidation e, [DEBUG ''Connecting to remote MongoDB.'']))"
    using absent by blast
  show ?thesis
    by (intro conjI abs_all same(1) same(2) same(3) same(4) same(5) rest [THEN conjunct1]
        rest [THEN conjunct2, THEN conjunct1] rest [THEN conjunct2, THEN conjunct2])
qed

theorem unused_fields_witness:
  "validate joi_default optionsSchema (example_options ''remote'' True ''app'' 27017) = None
   \<and> validate joi_default optionsSchema (example_options ''remote'' True ''other'' 5000) = None
   \<and> \<not> instanceof_Error (catch_err (tunnel_up
          (tunnelConfigurations (example_options ''remote'' True ''app'' 27017))))
   \<and> connect joi_default tunnel_up mongo_up (example_options ''remote'' True ''other'' 5000)
       = connect joi_default tunnel_up mongo_up (example_options ''remote'' True ''app'' 27017)
   \<and> tunnel_uri (example_options ''remote'' True ''other'' 5000)
       = tunnel_uri (example_options ''remote'' True ''app'' 27017)
   \<and> fst (connect joi_default tunnel_up mongo_up (omit ''documentdbClusterDbName''
            (example_options ''remote'' True ''app'' 27017)))
       = RejectValidation (any_required ''documentdbClusterDbName'')"
proof -
  let ?a = "example_options ''remote'' True ''app'' 27017"
  let ?b = "example_options ''remote'' True ''other'' 5000"
  let ?c = "omit ''documentdbClusterDbName'' ?a"
  have va: "validate joi_default optionsSchema ?a = None"
    and vb: "validate joi_default optionsSchema ?b = None"
    by (simp_all add: example_valid)
  have agree: "\<forall>k. k \<noteq> ''documentdbClusterDbName'' \<and> k \<noteq> ''documentdbPort''
             \<longrightarrow> field ?b k = field ?a k"
    by (simp add: field_def example_options_def)
  have up: "\<not> instanceof_Error (catch_err (tunnel_up (tunnelConfigurations ?a)))"
    by (simp add: tunnel_up_def)
  note th = unused_fields [where TUNNEL = tunnel_up and MONGODB = mongo_up
      and JOI = joi_default, OF va vb agree]
  have "snd (connect joi_default tunnel_up mongo_up ?b)
      = snd (connect joi_default tunnel_up mongo_up ?a)"
    and "fst (connect joi_default tunnel_up mongo_up ?b) = fst (connect joi_default tunnel_up mongo_up ?a)"
    and uri: "tunnel_uri ?b = tunnel_uri ?a"
    using th up by blast+
  then have same: "connect joi_default tunnel_up mongo_up ?b = connect joi_default tunnel_up mongo_up ?a"
    by (simp add: prod_eq_iff)
  have "field ?c ''documentdbClusterDbName'' = None"
    by (simp add: field_def omit_def example_options_def)
  then obtain e where e: "connect joi_default tunnel_up mongo_up ?c
      = (RejectValidation e, [DEBUG ''Connecting to remote MongoDB.''])"
    using th by blast
  have "validate joi_default optionsSchema ?c = Some (any_required ''documentdbClusterDbName'')"
    by (simp add: validate_def optionsSchema_def example_options_def omit_def field_def
        joi_value_def required_def allow_def JOI_string_def JOI_number_def JOI_boolean_def)
  then have "fst (connect joi_default tunnel_up mongo_up ?c)
      = RejectValidation (any_required ''documentdbClusterDbName'')"
    by (simp add: connect_def)
  with va vb up same uri show ?thesis by blast
qed

end
